theory Spec2Isabelle
  imports Complex_Main "HOL-Library.Char_ord" "HOL-Library.List_Lexorder"
begin

section \<open>Python strings\<close>

text \<open>
  A Python \<open>str\<close> is a \<open>string\<close> holding its UTF-8 bytes. The tests of \<open>main.py\<close>
  against ASCII text (\<open>endswith\<close>, \<open>replace\<close>, \<open>in\<close>, \<open>splitext\<close>) and the order
  of \<open>sorted\<close> (by code point, which is the byte order of UTF-8) are the same on the
  bytes. \<open>strip\<close> removes every whitespace character of Python, each in its UTF-8
  form. \<open>lower\<close> is modelled on the letters A to Z. A lone surrogate, which has no
  UTF-8 form, is left out.
\<close>

definition endswith :: "string \<Rightarrow> string \<Rightarrow> bool" where
  "endswith s suffix =
     (length suffix \<le> length s \<and> drop (length s - length suffix) s = suffix)"

text \<open>\<open>p.rfind(c)\<close>: the index of the last occurrence, or -1.\<close>

definition rfind :: "char \<Rightarrow> string \<Rightarrow> int" where
  "rfind c p =
     (if c \<in> set p
      then int (length p) - 1 - int (length (takeWhile (\<lambda>x. x \<noteq> c) (rev p)))
      else - 1)"

text \<open>
  \<open>os.path.splitext(p)[0]\<close> on POSIX: the text before the last dot, when that dot
  comes after the last slash and after a character of the file name that is not a dot.
\<close>

definition splitext_root :: "string \<Rightarrow> string" where
  "splitext_root p =
     (let sepIndex = rfind (CHR ''/'') p;
          dotIndex = rfind (CHR ''.'') p
      in if dotIndex > sepIndex \<and>
            list_ex (\<lambda>c. c \<noteq> CHR ''.'')
              (drop (nat (sepIndex + 1)) (take (nat dotIndex) p))
         then take (nat dotIndex) p
         else p)"

text \<open>\<open>s.replace(old, new)\<close>: every occurrence, left to right, without overlap.\<close>

function replace :: "string \<Rightarrow> string \<Rightarrow> string \<Rightarrow> string" where
  "replace old new s =
     (if old = [] then new @ concat (map (\<lambda>c. c # new) s)
      else if s = [] then []
      else if take (length old) s = old
           then new @ replace old new (drop (length old) s)
           else hd s # replace old new (tl s))"
  by pat_completeness auto
termination
  by (relation "measure (\<lambda>(old, new, s). length s)") auto

definition lower_char :: "char \<Rightarrow> char" where
  "lower_char c =
     (case map_of (zip ''ABCDEFGHIJKLMNOPQRSTUVWXYZ'' ''abcdefghijklmnopqrstuvwxyz'') c of
        None \<Rightarrow> c
      | Some d \<Rightarrow> d)"

definition lower :: "string \<Rightarrow> string" where
  "lower s = map lower_char s"

text \<open>\<open>v in s\<close> on strings: \<open>v\<close> occurs in \<open>s\<close> as a contiguous piece.\<close>

fun isin :: "string \<Rightarrow> string \<Rightarrow> bool" where
  "isin v [] = (v = [])"
| "isin v (c # cs) = (take (length v) (c # cs) = v \<or> isin v cs)"

text \<open>
  The characters for which \<open>str.isspace\<close> holds, the ones \<open>str.strip()\<close> removes:
  U+0009 to U+000D, U+001C to U+001F, U+0020, U+0085, U+00A0, U+1680, U+2000 to U+200A,
  U+2028, U+2029, U+202F, U+205F and U+3000, each as its UTF-8 bytes.
\<close>

definition whitespace :: "string list" where
  "whitespace =
     [[CHR 0x09], [CHR 0x0A], [CHR 0x0B], [CHR 0x0C], [CHR 0x0D],
      [CHR 0x1C], [CHR 0x1D], [CHR 0x1E], [CHR 0x1F], [CHR 0x20],
      [CHR 0xC2, CHR 0x85], [CHR 0xC2, CHR 0xA0],
      [CHR 0xE1, CHR 0x9A, CHR 0x80],
      [CHR 0xE2, CHR 0x80, CHR 0x80], [CHR 0xE2, CHR 0x80, CHR 0x81],
      [CHR 0xE2, CHR 0x80, CHR 0x82], [CHR 0xE2, CHR 0x80, CHR 0x83],
      [CHR 0xE2, CHR 0x80, CHR 0x84], [CHR 0xE2, CHR 0x80, CHR 0x85],
      [CHR 0xE2, CHR 0x80, CHR 0x86], [CHR 0xE2, CHR 0x80, CHR 0x87],
      [CHR 0xE2, CHR 0x80, CHR 0x88], [CHR 0xE2, CHR 0x80, CHR 0x89],
      [CHR 0xE2, CHR 0x80, CHR 0x8A],
      [CHR 0xE2, CHR 0x80, CHR 0xA8], [CHR 0xE2, CHR 0x80, CHR 0xA9],
      [CHR 0xE2, CHR 0x80, CHR 0xAF],
      [CHR 0xE2, CHR 0x81, CHR 0x9F],
      [CHR 0xE3, CHR 0x80, CHR 0x80]]"

text \<open>Removing from the front of \<open>s\<close>, as long as there is one, a character of \<open>chars\<close>.\<close>

function strip_front :: "string list \<Rightarrow> string \<Rightarrow> string" where
  "strip_front chars s =
     (case find (\<lambda>c. c \<noteq> [] \<and> take (length c) s = c) chars of
        None \<Rightarrow> s
      | Some c \<Rightarrow> strip_front chars (drop (length c) s))"
  by pat_completeness auto
termination
proof (relation "measure (\<lambda>(chars, s). length s)")
  show "wf (measure (\<lambda>(chars, s). length s))"
    by simp
next
  fix chars :: "string list" and s c :: string
  assume "find (\<lambda>c. c \<noteq> [] \<and> take (length c) s = c) chars = Some c"
  then have c: "c \<noteq> []" and "take (length c) s = c"
    by (auto simp: find_Some_iff)
  then have "s \<noteq> []"
    by auto
  with c show "((chars, drop (length c) s), (chars, s)) \<in> measure (\<lambda>(chars, s). length s)"
    by simp
qed

text \<open>
  \<open>s.strip()\<close>: the whitespace characters at the front are removed, then those at the
  end (on the reversed text, where each character is its bytes in reverse).
\<close>

definition strip :: "string \<Rightarrow> string" where
  "strip s = rev (strip_front (map rev whitespace) (rev (strip_front whitespace s)))"

section \<open>JSON values, exceptions, effects\<close>

text \<open>
  What \<open>json.loads\<close> and \<open>Response.json\<close> return. An object is the list of the
  items of the Python \<open>dict\<close>, whose keys are distinct. A float is given by its value
  (NaN and the infinities, which \<open>json.loads\<close> also reads, are left out).
\<close>

datatype json =
    JNull
  | JBool bool
  | JInt int
  | JFloat real
  | JStr string
  | JArr "json list"
  | JObj "(string \<times> json) list"

text \<open>
  The exceptions that the calls of \<open>main.py\<close> raise. Those of the libraries carry the
  detail the library gives them; those of the interpreter carry the value or the key
  the expression failed on.
\<close>

datatype exn =
    CalledProcessError string int
      \<comment> \<open>\<open>subprocess.run(cmd, check=True)\<close>: the command and its exit status\<close>
  | RequestException string
      \<comment> \<open>raised by \<open>requests\<close>: connection refused, timeout, error status, broken stream\<close>
  | ValueError string
      \<comment> \<open>\<open>JSONDecodeError\<close> and \<open>UnicodeDecodeError\<close>\<close>
  | OSError string
      \<comment> \<open>\<open>open\<close>, \<open>read\<close>, \<open>os.remove\<close>, \<open>os.listdir\<close>\<close>
  | AttributeError json
      \<comment> \<open>\<open>data.get\<close> on a value that is not a \<open>dict\<close>\<close>
  | TypeError json
      \<comment> \<open>\<open>str + v\<close>, \<open>for m in v\<close> or \<open>m["model"]\<close> on a value of the wrong type\<close>
  | KeyError string
  | NotAContextManager string
      \<comment> \<open>the \<open>TypeError\<close> of \<open>with\<close> on an object of the named class, which has no
          \<open>__enter__\<close> (an \<open>AttributeError\<close> before Python 3.11)\<close>

text \<open>The calls that reach outside the process, in the order they are made.\<close>

datatype event =
    Progress real string
  | Subprocess string
  | OpenRead string
  | Remove string
  | HttpGet string
  | HttpPost string "string option" string
  | PathExists string
  | ListDir string
  | Print string

text \<open>
  One line of \<open>resp.iter_lines()\<close>: the empty \<open>bytes\<close>; bytes that
  \<open>json.loads(line.decode("utf-8"))\<close> rejects, with the text of its error; bytes that it
  reads as a JSON value; or the point where reading the stream raises.
\<close>

datatype line = Blank | Malformed string | Json json | StreamError string

record post_response =
  post_status :: "exn option"  \<comment> \<open>what \<open>raise_for_status\<close> raises\<close>
  post_lines :: "line list"

record get_response =
  get_status :: "exn option"
  get_json :: "exn + json"  \<comment> \<open>\<open>res.json()\<close>\<close>

text \<open>
  The surroundings of one run: the exit status of each shell command, the text of each
  file, whether a file can be removed, the answers of the Ollama server, and the text
  \<open>str(e)\<close> of an exception.
\<close>

record world =
  shell_status :: "string \<Rightarrow> int"
  file_text :: "string \<Rightarrow> exn + string"
  remove_error :: "string \<Rightarrow> exn option"
  post_generate :: "string option \<Rightarrow> string \<Rightarrow> exn + post_response"
  get_tags :: "exn + get_response"
  exc_text :: "exn \<Rightarrow> string"

text \<open>
  A computation of the program: the exception it raises or the value it returns, with
  the calls it made. \<open>and_then\<close> is sequencing: after an exception nothing more runs.
\<close>

type_synonym 'a run = "(exn + 'a) \<times> event list"

definition and_then :: "'a run \<Rightarrow> ('a \<Rightarrow> 'b run) \<Rightarrow> 'b run" where
  "and_then m f =
     (case m of
        (Inl e, evs) \<Rightarrow> (Inl e, evs)
      | (Inr x, evs) \<Rightarrow> (case f x of (r, evs') \<Rightarrow> (r, evs @ evs')))"

definition OLLAMA_URL :: string where
  "OLLAMA_URL = ''http://localhost:11434''"

definition WHISPER_MODELS_DIR :: string where
  "WHISPER_MODELS_DIR = ''./whisper.cpp/models''"

text \<open>Python's truth value of a JSON value (\<open>if data.get("done")\<close>).\<close>

fun truthy :: "json \<Rightarrow> bool" where
  "truthy JNull = False"
| "truthy (JBool b) = b"
| "truthy (JInt n) = (n \<noteq> 0)"
| "truthy (JFloat x) = (x \<noteq> 0)"
| "truthy (JStr s) = (s \<noteq> [])"
| "truthy (JArr xs) = (xs \<noteq> [])"
| "truthy (JObj kv) = (kv \<noteq> [])"

text \<open>\<open>data.get(key, default)\<close>: an \<open>AttributeError\<close> unless \<open>data\<close> is a \<open>dict\<close>.\<close>

fun dict_get :: "json \<Rightarrow> string \<Rightarrow> json \<Rightarrow> exn + json" where
  "dict_get (JObj kv) key dflt =
     Inr (case map_of kv key of None \<Rightarrow> dflt | Some v \<Rightarrow> v)"
| "dict_get data key dflt = Inl (AttributeError data)"

section \<open>Model utilities\<close>

text \<open>\<open>m["model"]\<close>\<close>

fun subscript_model :: "json \<Rightarrow> exn + json" where
  "subscript_model (JObj kv) =
     (case map_of kv ''model'' of None \<Rightarrow> Inl (KeyError ''model'') | Some v \<Rightarrow> Inr v)"
| "subscript_model m = Inl (TypeError m)"

text \<open>
  \<open>for m in v\<close>: the elements of a list, the characters of a string, the keys of a
  \<open>dict\<close>; a \<open>TypeError\<close> on anything else.
\<close>

fun iterate :: "json \<Rightarrow> exn + json list" where
  "iterate (JArr xs) = Inr xs"
| "iterate (JStr s) = Inr (map (\<lambda>c. JStr [c]) s)"
| "iterate (JObj kv) = Inr (map (\<lambda>(k, v). JStr k) kv)"
| "iterate v = Inl (TypeError v)"

text \<open>The comprehension \<open>[m["model"] for m in ...]\<close>, stopping at the first exception.\<close>

fun model_fields :: "json list \<Rightarrow> exn + json list" where
  "model_fields [] = Inr []"
| "model_fields (m # ms) =
     (case subscript_model m of
        Inl e \<Rightarrow> Inl e
      | Inr v \<Rightarrow> (case model_fields ms of Inl e \<Rightarrow> Inl e | Inr vs \<Rightarrow> Inr (v # vs)))"

definition tags_url :: string where
  "tags_url = OLLAMA_URL @ ''/api/tags''"

text \<open>The body of the \<open>try\<close> of \<open>list_ollama_models\<close>.\<close>

definition list_ollama_models_try :: "world \<Rightarrow> exn + json list" where
  "list_ollama_models_try w =
     (case get_tags w of
        Inl e \<Rightarrow> Inl e
      | Inr res \<Rightarrow>
          (case get_status res of
             Some e \<Rightarrow> Inl e
           | None \<Rightarrow>
               (case get_json res of
                  Inl e \<Rightarrow> Inl e
                | Inr data \<Rightarrow>
                    (case dict_get data ''models'' (JArr []) of
                       Inl e \<Rightarrow> Inl e
                     | Inr v \<Rightarrow>
                         (case iterate v of
                            Inl e \<Rightarrow> Inl e
                          | Inr ms \<Rightarrow> model_fields ms)))))"

definition ollama_warning :: string where
  "ollama_warning =
     [CHR 0xE2, CHR 0x9A, CHR 0xA0, CHR 0xEF, CHR 0xB8, CHR 0x8F]
       @ '' Could not retrieve Ollama models: ''"

text \<open>
  \<open>list_ollama_models\<close>: \<open>except Exception\<close> catches whatever the body raises, prints
  the warning and returns the empty list, so the function returns a list in every case.
\<close>

definition list_ollama_models :: "world \<Rightarrow> json list \<times> event list" where
  "list_ollama_models w =
     (case list_ollama_models_try w of
        Inr models \<Rightarrow> (models, [HttpGet tags_url])
      | Inl e \<Rightarrow> ([], [HttpGet tags_url, Print (ollama_warning @ exc_text w e)]))"

definition valid :: "string list" where
  "valid = [''base'', ''small'', ''medium'', ''large'', ''large-v3'']"

definition model_name :: "string \<Rightarrow> string" where
  "model_name f = replace ''ggml-'' [] (splitext_root f)"

definition is_model_file :: "string \<Rightarrow> bool" where
  "is_model_file f =
     (endswith f ''.bin'' \<and> list_ex (\<lambda>v. isin v (lower (model_name f))) valid)"

text \<open>The loop of \<open>list_whisper_models\<close> over the listing, appending to \<open>models\<close>.\<close>

fun collect_models :: "string list \<Rightarrow> string list \<Rightarrow> string list" where
  "collect_models models [] = models"
| "collect_models models (f # fs) =
     (if is_model_file f then collect_models (models @ [model_name f]) fs
      else collect_models models fs)"

text \<open>
  What \<open>os.path.exists\<close> and \<open>os.listdir\<close> find at \<open>WHISPER_MODELS_DIR\<close>: nothing;
  a directory, with its entries in the order \<open>os.listdir\<close> gives them, which is
  arbitrary; or a path that exists and that \<open>os.listdir\<close> raises on (a regular file,
  a directory that may not be read), with the text of the error.
\<close>

datatype dir_state = Absent | Directory "string list" | Unlistable string

text \<open>
  \<open>list_whisper_models\<close>, on what is at \<open>WHISPER_MODELS_DIR\<close>. It calls
  \<open>os.path.exists\<close> and, when the path exists, \<open>os.listdir\<close>.
\<close>

definition list_whisper_models :: "dir_state \<Rightarrow> string list run" where
  "list_whisper_models d =
     (case d of
        Absent \<Rightarrow> (Inr [], [PathExists WHISPER_MODELS_DIR])
      | Unlistable msg \<Rightarrow>
          (Inl (OSError msg), [PathExists WHISPER_MODELS_DIR, ListDir WHISPER_MODELS_DIR])
      | Directory fs \<Rightarrow>
          (Inr (sorted_list_of_set (set (collect_models [] fs))),
           [PathExists WHISPER_MODELS_DIR, ListDir WHISPER_MODELS_DIR]))"

section \<open>Audio processing\<close>

definition returns :: "'a \<Rightarrow> 'a run" where
  "returns x = (Inr x, [])"

text \<open>\<open>progress(x, desc=...)\<close>\<close>

definition progress :: "real \<Rightarrow> string \<Rightarrow> unit run" where
  "progress x desc = (Inr (), [Progress x desc])"

text \<open>\<open>subprocess.run(cmd, shell=True, check=True)\<close>: raises on a non-zero exit status.\<close>

definition subprocess_run :: "world \<Rightarrow> string \<Rightarrow> unit run" where
  "subprocess_run w cmd =
     (if shell_status w cmd \<noteq> 0
      then (Inl (CalledProcessError cmd (shell_status w cmd)), [Subprocess cmd])
      else (Inr (), [Subprocess cmd]))"

text \<open>\<open>with open(path, "r") as f: f.read()\<close>\<close>

definition read_file :: "world \<Rightarrow> string \<Rightarrow> string run" where
  "read_file w path = (file_text w path, [OpenRead path])"

text \<open>\<open>os.remove(path)\<close>\<close>

definition os_remove :: "world \<Rightarrow> string \<Rightarrow> unit run" where
  "os_remove w path =
     (case remove_error w path of
        Some e \<Rightarrow> (Inl e, [Remove path])
      | None \<Rightarrow> (Inr (), [Remove path]))"

definition clean_wav :: "string \<Rightarrow> string" where
  "clean_wav file_path = splitext_root file_path @ ''_clean.wav''"

definition ffmpeg_command :: "string \<Rightarrow> string \<Rightarrow> string" where
  "ffmpeg_command file_path output =
     ''ffmpeg -y -i \"'' @ file_path @ ''\" -ar 16000 -ac 1 \"'' @ output @ ''\"''"

definition preprocess_audio :: "world \<Rightarrow> string \<Rightarrow> string run" where
  "preprocess_audio w file_path =
     (let output = clean_wav file_path;
          cmd = ffmpeg_command file_path output
      in and_then (subprocess_run w cmd) (\<lambda>_. returns output))"

section \<open>Ollama interaction\<close>

text \<open>\<open>summary += v\<close>: a \<open>TypeError\<close> unless \<open>v\<close> is a \<open>str\<close>.\<close>

fun str_add :: "string \<Rightarrow> json \<Rightarrow> exn + string" where
  "str_add summary (JStr s) = Inr (summary @ s)"
| "str_add summary v = Inl (TypeError v)"

text \<open>
  The loop \<open>for line in resp.iter_lines()\<close> of \<open>run_ollama_summary\<close>, from the value of
  \<open>summary\<close> so far: an empty line is passed over, \<open>break\<close> ends the loop at a line whose
  \<open>done\<close> is true, and an exception leaves the loop.
\<close>

fun read_lines :: "string \<Rightarrow> line list \<Rightarrow> exn + string" where
  "read_lines summary [] = Inr summary"
| "read_lines summary (StreamError msg # rest) = Inl (RequestException msg)"
| "read_lines summary (Blank # rest) = read_lines summary rest"
| "read_lines summary (Malformed msg # rest) = Inl (ValueError msg)"
| "read_lines summary (Json data # rest) =
     (case dict_get data ''response'' (JStr []) of
        Inl e \<Rightarrow> Inl e
      | Inr v \<Rightarrow>
          (case str_add summary v of
             Inl e \<Rightarrow> Inl e
           | Inr summary' \<Rightarrow>
               (case dict_get data ''done'' JNull of
                  Inl e \<Rightarrow> Inl e
                | Inr d \<Rightarrow> if truthy d then Inr summary' else read_lines summary' rest)))"

text \<open>\<open>context or 'No additional context provided.'\<close>\<close>

definition context_or_default :: "string option \<Rightarrow> string" where
  "context_or_default context =
     (case context of
        None \<Rightarrow> ''No additional context provided.''
      | Some c \<Rightarrow> if c = [] then ''No additional context provided.'' else c)"

definition summary_prompt :: "string option \<Rightarrow> string \<Rightarrow> string" where
  "summary_prompt context text =
     [CHR 0x0A] @ ''You are a helpful AI that summarizes meeting transcripts.''
       @ [CHR 0x0A, CHR 0x0A] @ ''Context: '' @ context_or_default context
       @ [CHR 0x0A, CHR 0x0A] @ ''Transcript:'' @ [CHR 0x0A] @ text
       @ [CHR 0x0A, CHR 0x0A] @ ''Write a clear and concise summary:'' @ [CHR 0x0A]"

definition generate_url :: string where
  "generate_url = OLLAMA_URL @ ''/api/generate''"

text \<open>The body of the \<open>try\<close> of \<open>run_ollama_summary\<close>.\<close>

definition run_ollama_summary_try :: "world \<Rightarrow> string option \<Rightarrow> string \<Rightarrow> exn + string" where
  "run_ollama_summary_try w model prompt =
     (case post_generate w model prompt of
        Inl e \<Rightarrow> Inl e
      | Inr resp \<Rightarrow>
          (case post_status resp of
             Some e \<Rightarrow> Inl e
           | None \<Rightarrow>
               (case read_lines [] (post_lines resp) of
                  Inl e \<Rightarrow> Inl e
                | Inr summary \<Rightarrow> Inr (strip summary))))"

definition summary_failure :: string where
  "summary_failure =
     [CHR 0xE2, CHR 0x9A, CHR 0xA0, CHR 0xEF, CHR 0xB8, CHR 0x8F]
       @ '' Failed to generate summary: ''"

text \<open>
  \<open>run_ollama_summary\<close>: \<open>except Exception\<close> turns whatever the body raises into the
  returned text, so the function returns a string in every case.
\<close>

definition run_ollama_summary ::
  "world \<Rightarrow> string option \<Rightarrow> string option \<Rightarrow> string \<Rightarrow> string \<times> event list" where
  "run_ollama_summary w model context text =
     (let prompt = summary_prompt context text
      in case run_ollama_summary_try w model prompt of
           Inr summary \<Rightarrow> (summary, [HttpPost generate_url model prompt])
         | Inl e \<Rightarrow>
             (summary_failure @ exc_text w e, [HttpPost generate_url model prompt]))"

section \<open>Transcription and summary\<close>

text \<open>A value in an f-string: \<open>None\<close> is written \<open>None\<close>.\<close>

definition fstr :: "string option \<Rightarrow> string" where
  "fstr v = (case v of None \<Rightarrow> ''None'' | Some s \<Rightarrow> s)"

definition upload_message :: string where
  "upload_message = [CHR 0xE2, CHR 0x9D, CHR 0x8C] @ '' Please upload an audio file.''"

definition whisper_command :: "string option \<Rightarrow> string \<Rightarrow> string \<Rightarrow> string" where
  "whisper_command whisper_model wav_file transcript_output =
     ''./whisper.cpp/main -m ./whisper.cpp/models/ggml-'' @ fstr whisper_model @ ''.bin ''
       @ ''-f \"'' @ wav_file @ ''\" > \"'' @ transcript_output @ ''\"''"

text \<open>
  \<open>with gr.Progress(track_tqdm=True) as progress:\<close> The class \<open>Progress\<close> of Gradio
  defines \<open>__call__\<close>, \<open>__iter__\<close>, \<open>__next__\<close>, \<open>__len__\<close>, \<open>tqdm\<close>, \<open>update\<close> and
  \<open>close\<close>, and neither \<open>__enter__\<close> nor \<open>__exit__\<close>: the object is made, and the
  \<open>with\<close> statement raises a \<open>TypeError\<close> before the first statement of its block.
\<close>

definition with_Progress :: "unit run" where
  "with_Progress = (Inl (NotAContextManager ''Progress''), [])"

text \<open>
  \<open>transcribe_and_summarize\<close>. The arguments come from the Gradio components: each is
  a string or \<open>None\<close>. The block of the \<open>with\<close> statement and the statements after it
  are written as they stand in the source, behind the entry into the \<open>with\<close> statement.
\<close>

definition transcribe_and_summarize ::
  "world \<Rightarrow> string option \<Rightarrow> string option \<Rightarrow> string option \<Rightarrow> string option
     \<Rightarrow> (string \<times> string option) run" where
  "transcribe_and_summarize w audio_path context whisper_model llm_model =
     (case audio_path of
        None \<Rightarrow> returns (upload_message, None)
      | Some path \<Rightarrow>
          if path = [] then returns (upload_message, None)
          else
            and_then with_Progress (\<lambda>_.
            and_then (progress 0 ''Preprocessing audio...'') (\<lambda>_.
            and_then (preprocess_audio w path) (\<lambda>wav_file.
            let transcript_output = ''transcript.txt'';
                whisper_cmd = whisper_command whisper_model wav_file transcript_output
            in
            and_then (progress 0.4 ''Running Whisper model...'') (\<lambda>_.
            and_then (subprocess_run w whisper_cmd) (\<lambda>_.
            and_then (read_file w transcript_output) (\<lambda>transcript.
            and_then (progress 0.7 ''Generating summary with Ollama...'') (\<lambda>_.
            and_then
              (case run_ollama_summary w llm_model context transcript of
                 (summary, evs) \<Rightarrow> (Inr summary, evs)) (\<lambda>summary.
            and_then (progress 1 ''Done!'') (\<lambda>_.
            and_then (os_remove w wav_file) (\<lambda>_.
            returns (summary, Some transcript_output))))))))))))"

section \<open>Reading the record of a run\<close>


definition is_write :: "event \<Rightarrow> bool" where
  "is_write ev = (case ev of Subprocess cmd \<Rightarrow> True | Remove path \<Rightarrow> True
                  | HttpPost url m p \<Rightarrow> True | _ \<Rightarrow> False)"


text \<open>The surroundings \<open>w\<close> with a server that accepts the request and streams \<open>ls\<close>.\<close>

definition streaming :: "world \<Rightarrow> line list \<Rightarrow> world" where
  "streaming w ls =
     w\<lparr>post_generate := \<lambda>model prompt. Inr \<lparr>post_status = None, post_lines = ls\<rparr>\<rparr>"

text \<open>
  In \<open>w\<close> the server accepts the request that \<open>run_ollama_summary\<close> sends for this
  model, context and transcript, and streams the lines \<open>ls\<close>.
\<close>

definition streams ::
  "world \<Rightarrow> string option \<Rightarrow> string option \<Rightarrow> string \<Rightarrow> line list \<Rightarrow> bool" where
  "streams w model context text ls =
     (post_generate w model (summary_prompt context text) =
        Inr \<lparr>post_status = None, post_lines = ls\<rparr>)"

text \<open>
  A fragment of the stream is a line holding a JSON object whose \<open>response\<close>, when it
  has one, is a string: \<open>fragment_text\<close> is that string, and \<open>signals_done\<close> tells
  whether its \<open>done\<close> is true.
\<close>

fun is_fragment :: "line \<Rightarrow> bool" where
  "is_fragment (Json (JObj kv)) =
     (case map_of kv ''response'' of None \<Rightarrow> True | Some (JStr s) \<Rightarrow> True | Some v \<Rightarrow> False)"
| "is_fragment l = False"

fun fragment_text :: "line \<Rightarrow> string" where
  "fragment_text (Json (JObj kv)) =
     (case map_of kv ''response'' of Some (JStr s) \<Rightarrow> s | _ \<Rightarrow> [])"
| "fragment_text l = []"

fun signals_done :: "line \<Rightarrow> bool" where
  "signals_done (Json (JObj kv)) =
     (case map_of kv ''done'' of None \<Rightarrow> False | Some v \<Rightarrow> truthy v)"
| "signals_done l = False"

definition fragment :: "string \<Rightarrow> bool \<Rightarrow> line" where
  "fragment s d = Json (JObj [(''response'', JStr s), (''done'', JBool d)])"

text \<open>An entry of the \<open>models\<close> array with its \<open>model\<close> field.\<close>

fun entry_model :: "json \<Rightarrow> json option" where
  "entry_model (JObj kv) = map_of kv ''model''"
| "entry_model m = None"

text \<open>
  Two states of the models folder with the same contents: the same entries, in whatever
  order \<open>os.listdir\<close> gives them.
\<close>

fun same_contents :: "dir_state \<Rightarrow> dir_state \<Rightarrow> bool" where
  "same_contents Absent Absent = True"
| "same_contents (Directory fs) (Directory fs') = (set fs = set fs')"
| "same_contents (Unlistable msg) (Unlistable msg') = (msg = msg')"
| "same_contents d d' = False"

text \<open>How many times a run removed the file at \<open>path\<close>.\<close>

definition removals :: "string \<Rightarrow> event list \<Rightarrow> nat" where
  "removals path evs = length (filter (\<lambda>ev. ev = Remove path) evs)"

section \<open>Sample surroundings\<close>

text \<open>
  Every command exits with status 0, every file holds a short transcript and can be
  removed, and the server streams the three fragments \<open>Hel\<close>, \<open>lo\<close> and the empty text
  with \<open>done\<close>; the listing of its models times out.
\<close>

definition hello_stream :: "line list" where
  "hello_stream = [fragment ''Hel'' False, fragment ''lo'' False, fragment [] True]"

definition fair_world :: world where
  "fair_world =
     \<lparr>shell_status = (\<lambda>cmd. 0),
      file_text = (\<lambda>path. Inr ''[00:00] welcome everyone''),
      remove_error = (\<lambda>path. None),
      post_generate = (\<lambda>model prompt. Inr \<lparr>post_status = None, post_lines = hello_stream\<rparr>),
      get_tags = Inl (RequestException ''timed out''),
      exc_text = (\<lambda>e. case e of
          RequestException msg \<Rightarrow> msg | ValueError msg \<Rightarrow> msg | OSError msg \<Rightarrow> msg
        | _ \<Rightarrow> ''error'')\<rparr>"




text \<open>A stream with a malformed line between two fragments.\<close>

definition garbled_stream :: "line list" where
  "garbled_stream =
     [fragment ''Hel'' False, Malformed ''Expecting value'', fragment ''lo'' True]"

text \<open>A listing of two models by the server.\<close>

definition two_tags :: json where
  "two_tags =
     JObj [(''models'',
       JArr [JObj [(''name'', JStr ''llama3:latest''), (''model'', JStr ''llama3:latest'')],
             JObj [(''model'', JStr ''mistral:7b'')]])]"

section \<open>The Whisper models folder\<close>

lemma set_collect_models:
  "set (collect_models models fs) =
     set models \<union> set (map model_name (filter is_model_file fs))"
  by (induction fs arbitrary: models) auto

lemma list_whisper_models_Directory:
  "fst (list_whisper_models (Directory fs)) =
     Inr (sorted_list_of_set (set (map model_name (filter is_model_file fs))))"
  by (simp add: list_whisper_models_def set_collect_models)

lemma model_name_small_en: "model_name ''ggml-small.en.bin'' = ''small.en''"
  by code_simp

lemma model_name_large_v3: "model_name ''ggml-large-v3.bin'' = ''large-v3''"
  by code_simp

lemma is_model_file_small_en: "is_model_file ''ggml-small.en.bin''"
  by code_simp

lemma is_model_file_large_v3: "is_model_file ''ggml-large-v3.bin''"
  by code_simp

lemma not_model_file_notes: "\<not> is_model_file ''notes.txt''"
  by code_simp

lemma scenario_names:
  assumes "set fs = {''ggml-small.en.bin'', ''ggml-large-v3.bin'', ''notes.txt''}"
  shows "set (map model_name (filter is_model_file fs)) = {''large-v3'', ''small.en''}"
proof -
  have "set (filter is_model_file fs) = {f \<in> set fs. is_model_file f}"
    by simp
  also have "\<dots> = {''ggml-small.en.bin'', ''ggml-large-v3.bin''}"
    unfolding assms
    using is_model_file_small_en is_model_file_large_v3 not_model_file_notes by auto
  finally have "set (map model_name (filter is_model_file fs)) =
      model_name ` {''ggml-small.en.bin'', ''ggml-large-v3.bin''}"
    by (metis set_map)
  then show ?thesis
    by (simp add: model_name_small_en model_name_large_v3 insert_commute)
qed

lemma sorted_scenario_names:
  "sorted_list_of_set {''large-v3'', ''small.en''} = [''large-v3'', ''small.en'']"
proof -
  have "sorted_list_of_set (set [''large-v3'', ''small.en'']) = [''large-v3'', ''small.en'']"
    by code_simp
  then show ?thesis by simp
qed

lemma list_whisper_models_reads_only:
  "\<not> list_ex is_write (snd (list_whisper_models d))"
  by (cases d) (simp_all add: list_whisper_models_def is_write_def)

text \<open>
  C5. \<open>list_whisper_models\<close> returns the empty list when the models folder does not
  exist. On a folder it returns a list that is sorted in the lexicographic order of
  strings, has no duplicates, and holds the model names of the \<open>.bin\<close> files whose name
  matches the allow-list. On a folder that contains \<open>ggml-small.en.bin\<close>,
  \<open>ggml-large-v3.bin\<close> and \<open>notes.txt\<close>, listed in any order, it returns
  \<open>["large-v3", "small.en"]\<close>.
\<close>

theorem list_whisper_models_sorted_names:
  "fst (list_whisper_models Absent) = Inr [] \<and>
   (\<exists>ms. fst (list_whisper_models (Directory fs)) = Inr ms \<and> sorted ms \<and> distinct ms \<and>
         set ms = set (map model_name (filter is_model_file fs))) \<and>
   (set fs = {''ggml-small.en.bin'', ''ggml-large-v3.bin'', ''notes.txt''} \<longrightarrow>
      fst (list_whisper_models (Directory fs)) = Inr [''large-v3'', ''small.en''])"
proof (intro conjI impI)
  show "fst (list_whisper_models Absent) = Inr []"
    by (simp add: list_whisper_models_def)
  show "\<exists>ms. fst (list_whisper_models (Directory fs)) = Inr ms \<and> sorted ms \<and> distinct ms \<and>
         set ms = set (map model_name (filter is_model_file fs))"
    unfolding list_whisper_models_Directory by simp
  assume "set fs = {''ggml-small.en.bin'', ''ggml-large-v3.bin'', ''notes.txt''}"
  then show "fst (list_whisper_models (Directory fs)) = Inr [''large-v3'', ''small.en'']"
    unfolding list_whisper_models_Directory
    by (simp only: scenario_names sorted_scenario_names)
qed

theorem list_whisper_models_sorted_names_witness:
  "set [''notes.txt'', ''ggml-small.en.bin'', ''ggml-large-v3.bin'']
     = {''ggml-small.en.bin'', ''ggml-large-v3.bin'', ''notes.txt''} \<and>
   fst (list_whisper_models
          (Directory [''notes.txt'', ''ggml-small.en.bin'', ''ggml-large-v3.bin'']))
     = Inr [''large-v3'', ''small.en'']"
proof -
  have h: "set [''notes.txt'', ''ggml-small.en.bin'', ''ggml-large-v3.bin'']
     = {''ggml-small.en.bin'', ''ggml-large-v3.bin'', ''notes.txt''}"
    by auto
  show ?thesis
    using h list_whisper_models_sorted_names
      [of "[''notes.txt'', ''ggml-small.en.bin'', ''ggml-large-v3.bin'']"]
    by blast
qed

text \<open>
  C6. Two calls of \<open>list_whisper_models\<close> on a models folder with the same contents,
  in whatever order \<open>os.listdir\<close> gives the entries each time, have the same outcome
  and make the same calls, none of which writes; where the folder is absent or can be
  listed, that outcome is a sorted list without duplicates.
\<close>

theorem list_whisper_models_same_contents:
  assumes "same_contents d d'"
  shows "list_whisper_models d = list_whisper_models d' \<and>
         \<not> list_ex is_write (snd (list_whisper_models d)) \<and>
         ((\<forall>msg. d \<noteq> Unlistable msg) \<longrightarrow>
            (\<exists>ms. fst (list_whisper_models d) = Inr ms \<and> sorted ms \<and> distinct ms))"
proof (intro conjI impI)
  show "list_whisper_models d = list_whisper_models d'"
    using assms
    by (cases d; cases d') (simp_all add: list_whisper_models_def set_collect_models)
  show "\<not> list_ex is_write (snd (list_whisper_models d))"
    by (rule list_whisper_models_reads_only)
  assume "\<forall>msg. d \<noteq> Unlistable msg"
  then show "\<exists>ms. fst (list_whisper_models d) = Inr ms \<and> sorted ms \<and> distinct ms"
    by (cases d) (simp_all add: list_whisper_models_def)
qed

theorem list_whisper_models_same_contents_witness:
  "same_contents (Directory [''ggml-base.bin'', ''ggml-small.bin'', ''ggml-base.bin''])
                 (Directory [''ggml-small.bin'', ''ggml-base.bin'']) \<and>
   list_whisper_models (Directory [''ggml-base.bin'', ''ggml-small.bin'', ''ggml-base.bin''])
     = list_whisper_models (Directory [''ggml-small.bin'', ''ggml-base.bin'']) \<and>
   (\<exists>ms. fst (list_whisper_models
                 (Directory [''ggml-base.bin'', ''ggml-small.bin'', ''ggml-base.bin''])) = Inr ms
         \<and> sorted ms \<and> distinct ms)"
proof -
  have h: "same_contents (Directory [''ggml-base.bin'', ''ggml-small.bin'', ''ggml-base.bin''])
                         (Directory [''ggml-small.bin'', ''ggml-base.bin''])"
    by auto
  note r = list_whisper_models_same_contents [OF h]
  have same: "list_whisper_models (Directory [''ggml-base.bin'', ''ggml-small.bin'', ''ggml-base.bin''])
     = list_whisper_models (Directory [''ggml-small.bin'', ''ggml-base.bin''])"
    by (rule r [THEN conjunct1])
  have sorted: "\<exists>ms. fst (list_whisper_models
                 (Directory [''ggml-base.bin'', ''ggml-small.bin'', ''ggml-base.bin''])) = Inr ms
         \<and> sorted ms \<and> distinct ms"
    by (rule r [THEN conjunct2, THEN conjunct2, THEN mp]) simp
  from h same sorted show ?thesis by (intro conjI)
qed

section \<open>The summary stream\<close>

lemma read_lines_step:
  assumes "x = Blank \<or> (is_fragment x \<and> \<not> signals_done x)"
  shows "read_lines acc (x # rest) = read_lines (acc @ fragment_text x) rest"
proof (cases x)
  case (Json data)
  with assms have f: "is_fragment (Json data)" "\<not> signals_done (Json data)" by auto
  then obtain kv where d: "data = JObj kv" by (cases data) auto
  show ?thesis
  proof (cases "map_of kv ''response''")
    case None
    with f d Json show ?thesis by (auto split: option.splits)
  next
    case (Some v)
    with f d obtain s where "v = JStr s" by (cases v) auto
    with Some f d Json show ?thesis by (auto split: option.splits)
  qed
qed (use assms in auto)

lemma read_lines_prefix:
  "list_all (\<lambda>x. x = Blank \<or> (is_fragment x \<and> \<not> signals_done x)) pre \<Longrightarrow>
   read_lines acc (pre @ rest) = read_lines (acc @ concat (map fragment_text pre)) rest"
proof (induction pre arbitrary: acc)
  case Nil
  then show ?case by simp
next
  case (Cons x pre)
  then have "read_lines acc (x # pre @ rest) = read_lines (acc @ fragment_text x) (pre @ rest)"
    by (intro read_lines_step) simp
  with Cons show ?case by simp
qed

lemma read_lines_done:
  assumes "is_fragment l" "signals_done l"
  shows "read_lines acc (l # rest) = Inr (acc @ fragment_text l)"
proof -
  from assms obtain kv where l: "l = Json (JObj kv)"
    by (cases l rule: is_fragment.cases) auto
  show ?thesis
  proof (cases "map_of kv ''response''")
    case None
    with assms l show ?thesis by (auto split: option.splits)
  next
    case (Some v)
    with assms l obtain s where "v = JStr s" by (cases v) auto
    with Some assms l show ?thesis by (auto split: option.splits)
  qed
qed

lemma read_lines_without_blank:
  "read_lines acc (filter (\<lambda>l. l \<noteq> Blank) ls) = read_lines acc ls"
  by (induction acc ls rule: read_lines.induct) (auto split: sum.splits)

lemma run_ollama_summary_streams:
  assumes "streams w model context text ls"
  shows "fst (run_ollama_summary w model context text) =
     (case read_lines [] ls of
        Inl e \<Rightarrow> summary_failure @ exc_text w e
      | Inr summary \<Rightarrow> strip summary)"
  using assms
  by (simp add: streams_def run_ollama_summary_def run_ollama_summary_try_def Let_def
      split: sum.splits)

lemma run_ollama_summary_raised:
  assumes "run_ollama_summary_try w model (summary_prompt context text) = Inl e"
  shows "fst (run_ollama_summary w model context text) = summary_failure @ exc_text w e"
  using assms by (simp add: run_ollama_summary_def Let_def)

lemma read_lines_hello_stream: "read_lines [] hello_stream = Inr ''Hello''"
  by (simp add: hello_stream_def fragment_def)

lemma strip_Hello: "strip ''Hello'' = ''Hello''"
  by (simp add: strip_def whitespace_def)

lemma summary_failure_nonempty: "summary_failure \<noteq> []"
  by (simp add: summary_failure_def)

lemma try_connection_fails:
  "post_generate w model prompt = Inl e \<Longrightarrow> run_ollama_summary_try w model prompt = Inl e"
  by (simp add: run_ollama_summary_try_def)

lemma try_error_status:
  "post_generate w model prompt = Inr resp \<Longrightarrow> post_status resp = Some e \<Longrightarrow>
   run_ollama_summary_try w model prompt = Inl e"
  by (simp add: run_ollama_summary_try_def)

lemma try_stream_breaks:
  assumes "post_generate w model prompt = Inr resp" "post_status resp = None"
    and "post_lines resp = pre @ StreamError msg # rest"
    and "list_all (\<lambda>x. x = Blank \<or> (is_fragment x \<and> \<not> signals_done x)) pre"
  shows "run_ollama_summary_try w model prompt = Inl (RequestException msg)"
  using assms by (simp add: run_ollama_summary_try_def read_lines_prefix)


section \<open>Fragments of the summary\<close>

lemma is_fragment_fragment: "is_fragment (fragment s d)" "signals_done (fragment s d) = d"
  "fragment_text (fragment s d) = s"
  by (simp_all add: fragment_def)

text \<open>
  C7. When the server accepts the request and streams the three fragments
  \<open>{"response":"Hel","done":false}\<close>, \<open>{"response":"lo","done":false}\<close> and
  \<open>{"response":"","done":true}\<close>, \<open>run_ollama_summary\<close> returns \<open>Hello\<close>. On every
  stream of fragments, the texts are joined in the order they arrive, up to and with the
  first fragment whose \<open>done\<close> is true; what the stream holds after it is not read;
  the joined text is returned stripped of the whitespace at its two ends (\<open>str.strip\<close>,
  for every whitespace character of Python). A stream of fragments that ends with no
  \<open>done\<close> gives all the texts, stripped.
\<close>

theorem summary_concatenates_until_done:
  assumes "streams w model context text ls"
  shows "(ls = hello_stream \<longrightarrow> fst (run_ollama_summary w model context text) = ''Hello'') \<and>
    (\<forall>pre l rest.
       ls = pre @ l # rest \<and>
       list_all (\<lambda>x. is_fragment x \<and> \<not> signals_done x) pre \<and>
       is_fragment l \<and> signals_done l \<longrightarrow>
         fst (run_ollama_summary w model context text) =
           strip (concat (map fragment_text (pre @ [l])))) \<and>
    (list_all (\<lambda>x. is_fragment x \<and> \<not> signals_done x) ls \<longrightarrow>
       fst (run_ollama_summary w model context text) = strip (concat (map fragment_text ls)))"
proof (intro conjI allI impI)
  note r = run_ollama_summary_streams [OF assms]
  {
    assume "ls = hello_stream"
    then show "fst (run_ollama_summary w model context text) = ''Hello''"
      by (simp add: r read_lines_hello_stream strip_Hello)
  }
  {
    fix pre l rest
    assume a: "ls = pre @ l # rest \<and>
       list_all (\<lambda>x. is_fragment x \<and> \<not> signals_done x) pre \<and>
       is_fragment l \<and> signals_done l"
    then have pre: "list_all (\<lambda>x. x = Blank \<or> (is_fragment x \<and> \<not> signals_done x)) pre"
      by (simp add: list_all_iff)
    have "read_lines [] ls = read_lines (concat (map fragment_text pre)) (l # rest)"
      using a read_lines_prefix [OF pre, of "[]" "l # rest"] by simp
    also have "\<dots> = Inr (concat (map fragment_text pre) @ fragment_text l)"
      using a by (simp add: read_lines_done)
    finally show "fst (run_ollama_summary w model context text) =
           strip (concat (map fragment_text (pre @ [l])))"
      by (simp add: r)
  }
  {
    assume "list_all (\<lambda>x. is_fragment x \<and> \<not> signals_done x) ls"
    then have all: "list_all (\<lambda>x. x = Blank \<or> (is_fragment x \<and> \<not> signals_done x)) ls"
      by (simp add: list_all_iff)
    have "read_lines [] ls = Inr (concat (map fragment_text ls))"
      using read_lines_prefix [OF all, of "[]" "[]"] by simp
    then show "fst (run_ollama_summary w model context text) =
        strip (concat (map fragment_text ls))"
      by (simp add: r)
  }
qed

lemma streams_streaming: "streams (streaming w ls) model context text ls"
  by (simp add: streams_def streaming_def)

theorem summary_concatenates_until_done_witness:
  "streams fair_world (Some ''llama3'') None ''hi'' hello_stream \<and>
   fst (run_ollama_summary fair_world (Some ''llama3'') None ''hi'') = ''Hello'' \<and>
   fst (run_ollama_summary
          (streaming fair_world
             ([fragment (CHR 0xC2 # CHR 0xA0 # '' Hel'') False, fragment ''lo '' False] @ fragment (''! '' @ [CHR 0xE2, CHR 0x80, CHR 0x83, CHR 0x0A]) True
                # [fragment ''ignored'' False, Malformed ''not read'']))
          (Some ''llama3'') None ''hi'') = ''Hello !''"
proof -
  have s: "streams fair_world (Some ''llama3'') None ''hi'' hello_stream"
    by (simp add: streams_def fair_world_def)
  have 1: "fst (run_ollama_summary fair_world (Some ''llama3'') None ''hi'') = ''Hello''"
    using summary_concatenates_until_done [OF s] by simp
  let ?ls = "[fragment (CHR 0xC2 # CHR 0xA0 # '' Hel'') False, fragment ''lo '' False] @ fragment (''! '' @ [CHR 0xE2, CHR 0x80, CHR 0x83, CHR 0x0A]) True
                # [fragment ''ignored'' False, Malformed ''not read'']"
  have "fst (run_ollama_summary (streaming fair_world ?ls) (Some ''llama3'') None ''hi'') =
      strip (concat (map fragment_text
         ([fragment (CHR 0xC2 # CHR 0xA0 # '' Hel'') False, fragment ''lo '' False] @ [fragment (''! '' @ [CHR 0xE2, CHR 0x80, CHR 0x83, CHR 0x0A]) True])))"
    by (rule summary_concatenates_until_done
          [OF streams_streaming [of fair_world ?ls "Some ''llama3''" None "''hi''"],
           THEN conjunct2, THEN conjunct1, rule_format,
           of "[fragment (CHR 0xC2 # CHR 0xA0 # '' Hel'') False, fragment ''lo '' False]" "fragment (''! '' @ [CHR 0xE2, CHR 0x80, CHR 0x83, CHR 0x0A]) True"
              "[fragment ''ignored'' False, Malformed ''not read'']"])
       (simp add: is_fragment_fragment)
  also have "\<dots> = ''Hello !''"
    by (simp add: is_fragment_fragment strip_def whitespace_def)
  finally show ?thesis using s 1 by simp
qed


section \<open>Empty and malformed lines\<close>

lemma garbled_read: "read_lines [] garbled_stream = Inl (ValueError ''Expecting value'')"
  by (simp add: garbled_stream_def fragment_def)

text \<open>
  C8, as the claim states it, fails for malformed lines: on the stream
  \<open>{"response":"Hel","done":false}\<close>, a line that is not JSON,
  \<open>{"response":"lo","done":true}\<close>, \<open>json.loads\<close> raises at the second line,
  \<open>except Exception\<close> catches it, and \<open>run_ollama_summary\<close> returns the failure text with
  the decoding error, not \<open>Hello\<close>: the third line is not read and \<open>Hel\<close> is lost.
\<close>

theorem malformed_line_not_skipped:
  "fst (run_ollama_summary (streaming fair_world garbled_stream) (Some ''llama3'') None ''hi'')
     = summary_failure @ ''Expecting value'' \<and>
   fst (run_ollama_summary (streaming fair_world garbled_stream) (Some ''llama3'') None ''hi'')
     \<noteq> ''Hello''"
proof -
  have "fst (run_ollama_summary (streaming fair_world garbled_stream) (Some ''llama3'') None ''hi'')
     = summary_failure @ exc_text (streaming fair_world garbled_stream) (ValueError ''Expecting value'')"
    using run_ollama_summary_streams [OF streams_streaming, of fair_world garbled_stream "Some ''llama3''" None "''hi''"]
    by (simp add: garbled_read)
  also have "\<dots> = summary_failure @ ''Expecting value''"
    by (simp add: streaming_def fair_world_def)
  finally show ?thesis by (simp add: summary_failure_def)
qed

text \<open>
  C8, amended. Empty lines in the stream are skipped by \<open>run_ollama_summary\<close> and cause
  no error: the result is the same as on the stream without them, and the texts of
  the fragments around them are still joined into the returned summary. A malformed
  line is not skipped: when the loop reaches one, reading stops, and
  \<open>run_ollama_summary\<close> returns the text \<open>Failed to generate summary:\<close> behind the
  warning sign, followed by the text of the decoding error, in place of the fragments
  read so far; no exception reaches the caller.
\<close>

theorem blank_skipped_malformed_stops:
  assumes "streams w model context text ls"
  shows
   "(\<forall>w'. streams w' model context text (filter (\<lambda>l. l \<noteq> Blank) ls) \<and> exc_text w' = exc_text w \<longrightarrow>
        fst (run_ollama_summary w' model context text) =
        fst (run_ollama_summary w model context text)) \<and>
    (\<forall>pre l rest.
        ls = pre @ l # rest \<and>
        list_all (\<lambda>x. x = Blank \<or> (is_fragment x \<and> \<not> signals_done x)) pre \<and>
        is_fragment l \<and> signals_done l \<longrightarrow>
          fst (run_ollama_summary w model context text) =
            strip (concat (map fragment_text (filter (\<lambda>l. l \<noteq> Blank) pre)) @ fragment_text l)) \<and>
    (\<forall>pre msg rest.
        ls = pre @ Malformed msg # rest \<and>
        list_all (\<lambda>x. x = Blank \<or> (is_fragment x \<and> \<not> signals_done x)) pre \<longrightarrow>
          fst (run_ollama_summary w model context text) =
            summary_failure @ exc_text w (ValueError msg))"
proof (intro conjI allI impI)
  note r = run_ollama_summary_streams [OF assms]
  {
    fix w'
    assume a: "streams w' model context text (filter (\<lambda>l. l \<noteq> Blank) ls) \<and>
      exc_text w' = exc_text w"
    then have "fst (run_ollama_summary w' model context text) =
       (case read_lines [] (filter (\<lambda>l. l \<noteq> Blank) ls) of
          Inl e \<Rightarrow> summary_failure @ exc_text w' e
        | Inr summary \<Rightarrow> strip summary)"
      by (simp add: run_ollama_summary_streams)
    moreover from a have "exc_text w' = exc_text w"
      by simp
    ultimately show "fst (run_ollama_summary w' model context text) =
        fst (run_ollama_summary w model context text)"
      by (simp add: r read_lines_without_blank split: sum.splits)
  }
  {
    fix pre l rest
    assume a: "ls = pre @ l # rest \<and>
        list_all (\<lambda>x. x = Blank \<or> (is_fragment x \<and> \<not> signals_done x)) pre \<and>
        is_fragment l \<and> signals_done l"
    have t: "concat (map fragment_text (filter (\<lambda>l. l \<noteq> Blank) pre)) =
        concat (map fragment_text pre)"
      by (induction pre) auto
    have "read_lines [] ls = read_lines (concat (map fragment_text pre)) (l # rest)"
      using a read_lines_prefix [of pre "[]" "l # rest"] by simp
    also have "\<dots> = Inr (concat (map fragment_text pre) @ fragment_text l)"
      using a by (simp add: read_lines_done)
    finally show "fst (run_ollama_summary w model context text) =
        strip (concat (map fragment_text (filter (\<lambda>l. l \<noteq> Blank) pre)) @ fragment_text l)"
      by (simp add: r t)
  }
  {
    fix pre msg rest
    assume a: "ls = pre @ Malformed msg # rest \<and>
        list_all (\<lambda>x. x = Blank \<or> (is_fragment x \<and> \<not> signals_done x)) pre"
    have "read_lines [] ls = read_lines (concat (map fragment_text pre)) (Malformed msg # rest)"
      using a read_lines_prefix [of pre "[]" "Malformed msg # rest"] by simp
    then show "fst (run_ollama_summary w model context text) =
        summary_failure @ exc_text w (ValueError msg)"
      by (simp add: r)
  }
qed

theorem blank_skipped_malformed_stops_witness:
  "streams (streaming fair_world [Blank, fragment ''Hel'' False, Blank, fragment ''lo'' True])
      (Some ''llama3'') None ''hi''
      [Blank, fragment ''Hel'' False, Blank, fragment ''lo'' True] \<and>
   fst (run_ollama_summary
          (streaming fair_world [Blank, fragment ''Hel'' False, Blank, fragment ''lo'' True])
          (Some ''llama3'') None ''hi'') = ''Hello'' \<and>
   streams (streaming fair_world garbled_stream) (Some ''llama3'') None ''hi'' garbled_stream \<and>
   fst (run_ollama_summary (streaming fair_world garbled_stream) (Some ''llama3'') None ''hi'')
     = summary_failure @ ''Expecting value''"
proof -
  let ?ls = "[Blank, fragment ''Hel'' False, Blank, fragment ''lo'' True]"
  have s: "streams (streaming fair_world ?ls) (Some ''llama3'') None ''hi'' ?ls"
    by (rule streams_streaming)
  have "fst (run_ollama_summary (streaming fair_world ?ls) (Some ''llama3'') None ''hi'') =
     strip (concat (map fragment_text
        (filter (\<lambda>l. l \<noteq> Blank) [Blank, fragment ''Hel'' False, Blank])) @
        fragment_text (fragment ''lo'' True))"
    by (rule blank_skipped_malformed_stops
          [OF s, THEN conjunct2, THEN conjunct1, rule_format,
           of "[Blank, fragment ''Hel'' False, Blank]" "fragment ''lo'' True" "[]"])
       (simp add: is_fragment_fragment)
  also have "\<dots> = ''Hello''"
    by (simp add: is_fragment_fragment fragment_def strip_def whitespace_def)
  finally have 1: "fst (run_ollama_summary (streaming fair_world ?ls) (Some ''llama3'') None ''hi'')
     = ''Hello''" .
  have g: "streams (streaming fair_world garbled_stream) (Some ''llama3'') None ''hi'' garbled_stream"
    by (rule streams_streaming)
  have "fst (run_ollama_summary (streaming fair_world garbled_stream) (Some ''llama3'') None ''hi'')
     = summary_failure @ exc_text (streaming fair_world garbled_stream) (ValueError ''Expecting value'')"
    by (rule blank_skipped_malformed_stops
          [OF g, THEN conjunct2, THEN conjunct2, rule_format,
           of "[fragment ''Hel'' False]" "''Expecting value''" "[fragment ''lo'' True]"])
       (simp add: garbled_stream_def is_fragment_fragment)
  also have "\<dots> = summary_failure @ ''Expecting value''"
    by (simp add: streaming_def fair_world_def)
  finally show ?thesis using s 1 g by simp
qed


section \<open>The models of the Ollama server\<close>

lemma model_fields_entries:
  "list_all (\<lambda>m. entry_model m \<noteq> None) entries \<Longrightarrow>
   \<exists>vs. model_fields entries = Inr vs \<and> map Some vs = map entry_model entries"
proof (induction entries)
  case Nil
  then show ?case by simp
next
  case (Cons m ms)
  then obtain v where v: "entry_model m = Some v" by auto
  then obtain kv where "m = JObj kv" by (cases m) auto
  with v have "subscript_model m = Inr v" by simp
  moreover from Cons obtain vs where "model_fields ms = Inr vs" "map Some vs = map entry_model ms"
    by auto
  ultimately show ?case using v by simp
qed

lemma fst_list_ollama_models:
  "fst (list_ollama_models w) =
     (case list_ollama_models_try w of Inl e \<Rightarrow> [] | Inr models \<Rightarrow> models)"
  by (simp add: list_ollama_models_def split: sum.splits)

text \<open>
  C9. \<open>list_ollama_models\<close> returns a list in every case. Whatever exception the
  request, \<open>raise_for_status\<close>, \<open>res.json()\<close> or the reading of the answer raises, it
  prints the warning and returns the empty list: so it does when the request fails on
  the network or times out, and when the status is an error. When the request
  succeeds and the answer is an object whose \<open>models\<close> is an array of objects that each
  have a \<open>model\<close> field, it returns those fields, in the order of the array.
\<close>

theorem list_ollama_models_empty_on_failure:
  "(list_ollama_models_try w = Inl e \<longrightarrow>
      list_ollama_models w = ([], [HttpGet tags_url, Print (ollama_warning @ exc_text w e)])) \<and>
   (get_tags w = Inl e \<longrightarrow> fst (list_ollama_models w) = []) \<and>
   (\<forall>res. get_tags w = Inr res \<and> get_status res = Some e \<longrightarrow>
      fst (list_ollama_models w) = []) \<and>
   (\<forall>res kv entries.
      get_tags w = Inr res \<and> get_status res = None \<and> get_json res = Inr (JObj kv) \<and>
      map_of kv ''models'' = Some (JArr entries) \<and>
      list_all (\<lambda>m. entry_model m \<noteq> None) entries \<longrightarrow>
        map Some (fst (list_ollama_models w)) = map entry_model entries)"
proof (intro conjI allI impI)
  {
    assume "list_ollama_models_try w = Inl e"
    then show "list_ollama_models w =
        ([], [HttpGet tags_url, Print (ollama_warning @ exc_text w e)])"
      by (simp add: list_ollama_models_def)
  }
  {
    assume "get_tags w = Inl e"
    then have "list_ollama_models_try w = Inl e"
      by (simp add: list_ollama_models_try_def)
    then show "fst (list_ollama_models w) = []"
      by (simp add: fst_list_ollama_models)
  }
  {
    fix res
    assume "get_tags w = Inr res \<and> get_status res = Some e"
    then have "list_ollama_models_try w = Inl e"
      by (simp add: list_ollama_models_try_def)
    then show "fst (list_ollama_models w) = []"
      by (simp add: fst_list_ollama_models)
  }
  {
    fix res kv entries
    assume a: "get_tags w = Inr res \<and> get_status res = None \<and> get_json res = Inr (JObj kv) \<and>
      map_of kv ''models'' = Some (JArr entries) \<and>
      list_all (\<lambda>m. entry_model m \<noteq> None) entries"
    then obtain vs where vs: "model_fields entries = Inr vs"
      "map Some vs = map entry_model entries"
      using model_fields_entries by blast
    from a vs(1) have "list_ollama_models_try w = Inr vs"
      by (simp add: list_ollama_models_try_def)
    with vs(2) show "map Some (fst (list_ollama_models w)) = map entry_model entries"
      by (simp add: fst_list_ollama_models)
  }
qed

theorem list_ollama_models_empty_on_failure_witness:
  "get_tags fair_world = Inl (RequestException ''timed out'') \<and>
   fst (list_ollama_models fair_world) = [] \<and>
   fst (list_ollama_models
          (fair_world\<lparr>get_tags := Inr \<lparr>get_status = Some (RequestException ''500 Server Error''),
                                       get_json = Inr two_tags\<rparr>\<rparr>)) = [] \<and>
   fst (list_ollama_models
          (fair_world\<lparr>get_tags := Inr \<lparr>get_status = None, get_json = Inr two_tags\<rparr>\<rparr>)) =
     [JStr ''llama3:latest'', JStr ''mistral:7b'']"
proof -
  have t: "get_tags fair_world = Inl (RequestException ''timed out'')"
    by (simp add: fair_world_def)
  have 1: "fst (list_ollama_models fair_world) = []"
    by (rule list_ollama_models_empty_on_failure
          [of fair_world "RequestException ''timed out''", THEN conjunct2, THEN conjunct1, THEN mp])
       (rule t)
  let ?bad = "fair_world\<lparr>get_tags := Inr \<lparr>get_status = Some (RequestException ''500 Server Error''),
                                       get_json = Inr two_tags\<rparr>\<rparr>"
  have 2: "fst (list_ollama_models ?bad) = []"
    by (rule list_ollama_models_empty_on_failure
          [of ?bad "RequestException ''500 Server Error''",
           THEN conjunct2, THEN conjunct2, THEN conjunct1, rule_format,
           of "\<lparr>get_status = Some (RequestException ''500 Server Error''),
                get_json = Inr two_tags\<rparr>"])
       simp
  let ?ok = "fair_world\<lparr>get_tags := Inr \<lparr>get_status = None, get_json = Inr two_tags\<rparr>\<rparr>"
  have "map Some (fst (list_ollama_models ?ok)) =
      map entry_model
        [JObj [(''name'', JStr ''llama3:latest''), (''model'', JStr ''llama3:latest'')],
         JObj [(''model'', JStr ''mistral:7b'')]]"
    by (rule list_ollama_models_empty_on_failure
          [of ?ok "RequestException []",
           THEN conjunct2, THEN conjunct2, THEN conjunct2, rule_format,
           of "\<lparr>get_status = None, get_json = Inr two_tags\<rparr>"
              "[(''models'',
       JArr [JObj [(''name'', JStr ''llama3:latest''), (''model'', JStr ''llama3:latest'')],
             JObj [(''model'', JStr ''mistral:7b'')]])]"])
       (simp add: two_tags_def)
  then have "map Some (fst (list_ollama_models ?ok)) =
      map Some [JStr ''llama3:latest'', JStr ''mistral:7b'']"
    by simp
  then have 3: "fst (list_ollama_models ?ok) = [JStr ''llama3:latest'', JStr ''mistral:7b'']"
    by (simp only: inj_map_eq_map [OF inj_Some])
  from t 1 2 3 show ?thesis by (intro conjI)
qed

section \<open>The runs of the pipeline\<close>

text \<open>
  The two ways \<open>transcribe_and_summarize\<close> ends: without an audio path it returns at
  the guard; with one it ends at the \<open>with\<close> statement, before any stage.
\<close>

lemma run_no_audio:
  "transcribe_and_summarize w None context whisper_model llm_model =
     (Inr (upload_message, None), [])"
  "transcribe_and_summarize w (Some []) context whisper_model llm_model =
     (Inr (upload_message, None), [])"
  by (simp_all add: transcribe_and_summarize_def returns_def)

lemma run_with_audio:
  assumes "path \<noteq> []"
  shows "transcribe_and_summarize w (Some path) context whisper_model llm_model =
    (Inl (NotAContextManager ''Progress''), [])"
  using assms by (simp add: transcribe_and_summarize_def with_Progress_def and_then_def)

lemma never_removes:
  "removals p (snd (transcribe_and_summarize w audio_path context whisper_model llm_model)) = 0"
proof (cases audio_path)
  case None
  then show ?thesis by (simp add: run_no_audio removals_def)
next
  case (Some path)
  then show ?thesis
    by (cases "path = []") (simp_all add: run_no_audio run_with_audio removals_def)
qed



text \<open>
  C3. Without an audio path (\<open>None\<close>, or the empty string, which \<open>not audio_path\<close> also
  rejects) \<open>transcribe_and_summarize\<close> returns the fixed message
  \<open>Please upload an audio file.\<close> behind the cross mark, with \<open>None\<close> as the transcript
  path, and makes no call at all: no process, no HTTP request, no file access.
\<close>

theorem no_audio_no_stage:
  "transcribe_and_summarize w None context whisper_model llm_model =
     (Inr (upload_message, None), []) \<and>
   transcribe_and_summarize w (Some []) context whisper_model llm_model =
     (Inr (upload_message, None), []) \<and>
   upload_message = [CHR 0xE2, CHR 0x9D, CHR 0x8C] @ '' Please upload an audio file.''"
  by (simp add: run_no_audio upload_message_def)






end
